theory Spec2Isabelle
  imports Complex_Main
begin

section \<open>The DeepSeek content generator (packages/core/src/core/contentGenerator.ts)\<close>

text \<open>
  A shallow embedding of \<^verbatim>\<open>createContentGenerator\<close> and of the class
  \<^verbatim>\<open>DeepSeekContentGenerator\<close>. An optional or nullable TypeScript field is an
  \<open>option\<close> (\<open>None\<close> is \<^verbatim>\<open>undefined\<close> or \<^verbatim>\<open>null\<close>), an object type is a
  record, a thrown \<^verbatim>\<open>Error\<close> is the left summand of a sum. Record fields carry a short
  prefix where two object types of the source share a field name.
\<close>

subsection \<open>JavaScript operators used by the adapter\<close>

text \<open>
  \<^verbatim>\<open>x || d\<close> on an optional string: \<^verbatim>\<open>undefined\<close>, \<^verbatim>\<open>null\<close> and the empty string
  are falsy, every other string is truthy.
\<close>

definition str_or :: "string option \<Rightarrow> string \<Rightarrow> string" where
  "str_or x d = (case x of None \<Rightarrow> d | Some s \<Rightarrow> if s = [] then d else s)"

text \<open>
  \<^verbatim>\<open>!x\<close> on an optional string (\<^verbatim>\<open>!config.apiKey\<close>): true for an absent
  string and for the empty one.
\<close>

definition missing :: "string option \<Rightarrow> bool" where
  "missing x = (case x of None \<Rightarrow> True | Some s \<Rightarrow> s = [])"

text \<open>\<^verbatim>\<open>x || d\<close> on an optional object or array: only absence is falsy.\<close>

definition obj_or :: "'a option \<Rightarrow> 'a \<Rightarrow> 'a" where
  "obj_or x d = (case x of None \<Rightarrow> d | Some v \<Rightarrow> v)"

subsection \<open>Errors\<close>

text \<open>
  A thrown error (a rejected promise), with its message: an \<^verbatim>\<open>Error\<close> of the
  source, or a \<^verbatim>\<open>TypeError\<close> of the runtime.
\<close>

datatype error = Error string | TypeError string

subsection \<open>Target Service data (the SDK's ChatCompletion)\<close>

text \<open>
  A usage object. The adapter copies a chunk's usage object as it is, and a chunk is
  read as \<^verbatim>\<open>any\<close>, so each counter may be missing (\<open>None\<close>).
\<close>

record CompletionUsage =
  prompt_tokens :: "int option"
  completion_tokens :: "int option"
  total_tokens :: "int option"

record ChatCompletionMessage =
  msg_role :: string
  msg_content :: "string option"

record Choice =
  index :: int
  message :: "ChatCompletionMessage option"
  finish_reason :: "string option"

record ChatCompletion =
  cc_id :: string
  cc_object :: string
  cc_created :: int
  cc_model :: string
  cc_choices :: "Choice list option"
  cc_usage :: "CompletionUsage option"

subsection \<open>Legacy response (GenerateContentResponse)\<close>

record ResponseMessage =
  content :: "string option"
  role :: "string option"

record ResponseChoice =
  rc_message :: "ResponseMessage option"
  rc_finish_reason :: "string option"

record GenerateContentResponse =
  resp_text :: "string option"
  data :: "ChatCompletion option"
  functionCalls :: "unit list option"
  executableCode :: "unit option"
  codeExecutionResult :: "unit option"
  choices :: "ResponseChoice list option"

subsection \<open>Response Adapter: convertOpenAIToGemini\<close>

text \<open>The optional chain \<^verbatim>\<open>response.choices?.[0]?.message?.content\<close>.\<close>

definition first_choice_content :: "ChatCompletion \<Rightarrow> string option" where
  "first_choice_content response =
     (case cc_choices response of
        None \<Rightarrow> None
      | Some [] \<Rightarrow> None
      | Some (c # _) \<Rightarrow> (case message c of None \<Rightarrow> None | Some m \<Rightarrow> msg_content m))"

text \<open>The arrow function mapped over \<^verbatim>\<open>response.choices\<close>.\<close>

definition convert_choice :: "Choice \<Rightarrow> ResponseChoice" where
  "convert_choice choice =
     \<lparr> rc_message = Some
         \<lparr> content = Some (str_or (case message choice of None \<Rightarrow> None
                                                         | Some m \<Rightarrow> msg_content m) ''''),
           role = Some (str_or (map_option msg_role (message choice)) ''assistant'') \<rparr>,
       rc_finish_reason = finish_reason choice \<rparr>"

definition convertOpenAIToGemini :: "ChatCompletion \<Rightarrow> GenerateContentResponse" where
  "convertOpenAIToGemini response =
     \<lparr> resp_text = Some (str_or (first_choice_content response) ''''),
       data = Some response,
       functionCalls = Some [],
       executableCode = None,
       codeExecutionResult = None,
       choices = map_option (map convert_choice) (cc_choices response) \<rparr>"

text \<open>
  The structural invariant stated of a legacy response, as a predicate on responses:
  \<open>text\<close> is a string; it is \<open>choices[0].message.content\<close> when \<open>choices\<close> is
  non-empty, and the empty string when \<open>choices\<close> is empty (or absent).
\<close>

definition text_invariant :: "GenerateContentResponse \<Rightarrow> bool" where
  "text_invariant r =
     (case choices r of
        Some (c # _) \<Rightarrow>
          (case rc_message c of
             None \<Rightarrow> False
           | Some m \<Rightarrow> resp_text r \<noteq> None \<and> resp_text r = content m)
      | _ \<Rightarrow> resp_text r = Some '''')"

subsection \<open>Stream chunks\<close>

text \<open>
  The generator reads the stream as \<^verbatim>\<open>any\<close>: a chunk may lack its choices or its
  usage, a choice its delta, a delta its role or its content, and a role that is
  present is any string, the empty one included.
\<close>

record Delta =
  delta_role :: "string option"
  delta_content :: "string option"

record ChunkChoice =
  ck_index :: int
  delta :: "Delta option"
  ck_finish_reason :: "string option"

record ChatCompletionChunk =
  chunk_id :: string
  chunk_created :: int
  chunk_model :: string
  chunk_choices :: "ChunkChoice list option"
  chunk_usage :: "CompletionUsage option"

subsection \<open>Stream Reassembler: convertStreamToGenerator\<close>

text \<open>The arrow function mapped over \<^verbatim>\<open>chunk.choices\<close>.\<close>

definition completion_choice :: "ChunkChoice \<Rightarrow> Choice" where
  "completion_choice choice =
     \<lparr> index = ck_index choice,
       message = Some
         \<lparr> msg_role =
             str_or (case delta choice of None \<Rightarrow> None | Some d \<Rightarrow> delta_role d)
               ''assistant'',
           msg_content =
             Some (str_or (case delta choice of None \<Rightarrow> None | Some d \<Rightarrow> delta_content d)
               '''') \<rparr>,
       finish_reason = ck_finish_reason choice \<rparr>"

text \<open>The constant \<^verbatim>\<open>completion\<close> of the loop body: the synthesized envelope.\<close>

definition completion :: "ChatCompletionChunk \<Rightarrow> ChatCompletion" where
  "completion chunk =
     \<lparr> cc_id = chunk_id chunk,
       cc_object = ''chat.completion'',
       cc_created = chunk_created chunk,
       cc_model = chunk_model chunk,
       cc_choices =
         Some (obj_or (map_option (map completion_choice) (chunk_choices chunk)) []),
       cc_usage =
         Some (obj_or (chunk_usage chunk)
           \<lparr> prompt_tokens = Some 0, completion_tokens = Some 0,
             total_tokens = Some 0 \<rparr>) \<rparr>"

text \<open>
  The \<^verbatim>\<open>for await\<close> loop over the chunks of a stream that ends: one
  \<^verbatim>\<open>yield\<close> for each chunk, the yielded fragments in the order of the yields.
\<close>

fun convertStreamToGenerator :: "ChatCompletionChunk list \<Rightarrow> GenerateContentResponse list" where
  "convertStreamToGenerator [] = []"
| "convertStreamToGenerator (chunk # rest) =
     convertOpenAIToGemini (completion chunk) # convertStreamToGenerator rest"

subsection \<open>Legacy requests\<close>

text \<open>
  A value of type \<^verbatim>\<open>any\<close>: either a primitive string
  (\<^verbatim>\<open>typeof x === 'string'\<close>) or some other value, of a type \<open>'v\<close> left open.
  \<^verbatim>\<open>JSON.stringify\<close> belongs to the runtime, not to this repository: the functions
  below take it as a parameter \<open>stringify\<close>. Its result \<open>Inl e\<close> is the error it
  throws (a \<^verbatim>\<open>TypeError\<close> on a BigInt or on a cyclic object), \<open>Inr None\<close> is
  \<^verbatim>\<open>undefined\<close> (what it returns for \<^verbatim>\<open>undefined\<close>, a function or a symbol),
  \<open>Inr (Some s)\<close> is the string \<open>s\<close>.
\<close>

datatype 'v any = JsString string | JsOther 'v

text \<open>
  Three kinds of values that are not strings, and the built-in on them, for evaluating
  the functions at concrete inputs.
\<close>

datatype sample_value = Undefined | Null | BigInt int

fun JSON_stringify :: "sample_value \<Rightarrow> error + string option" where
  "JSON_stringify Undefined = Inr None"
| "JSON_stringify Null = Inr (Some ''null'')"
| "JSON_stringify (BigInt n) = Inl (TypeError ''Do not know how to serialize a BigInt'')"

text \<open>
  \<^verbatim>\<open>Array.prototype.map\<close> with a callback that may throw: the elements are visited
  in order, and the first error ends the call.
\<close>

fun array_map :: "('a \<Rightarrow> error + 'b) \<Rightarrow> 'a list \<Rightarrow> error + 'b list" where
  "array_map f [] = Inr []"
| "array_map f (x # xs) =
     (case f x of
        Inl e \<Rightarrow> Inl e
      | Inr y \<Rightarrow> (case array_map f xs of Inl e \<Rightarrow> Inl e | Inr ys \<Rightarrow> Inr (y # ys)))"

text \<open>
  The expression
  \<^verbatim>\<open>typeof content === 'string' ? content : JSON.stringify(content)\<close>, which both
  \<^verbatim>\<open>convertGeminiToOpenAI\<close> and \<^verbatim>\<open>countTokens\<close> apply to a content element.
\<close>

definition content_string ::
  "('v \<Rightarrow> error + string option) \<Rightarrow> 'v any \<Rightarrow> error + string option" where
  "content_string stringify c =
     (case c of JsString s \<Rightarrow> Inr (Some s) | JsOther v \<Rightarrow> stringify v)"

record 'v ChatCompletionMessageParam =
  mp_role :: string
  mp_content :: "'v any option"

record 'v GenerateContentParameters =
  contents :: "'v any list option"
  model :: "string option"
  messages :: "'v ChatCompletionMessageParam list option"
  max_tokens :: "int option"
  temperature :: "real option"

record 'v ChatCompletionCreateParams =
  o_messages :: "'v ChatCompletionMessageParam list"
  o_model :: string
  o_max_tokens :: "int option"
  o_temperature :: "real option"
  stream :: "bool option"

record 'v CountTokensParameters =
  ct_model :: string
  ct_contents :: "'v any list option"

record CountTokensResponse =
  totalTokens :: int

record 'v EmbedContentParameters =
  ec_model :: string
  ec_content :: "'v any"

record EmbedContentResponse =
  embedding :: "int list"

subsection \<open>Configuration and the generator object\<close>

datatype AuthType = USE_DEEPSEEK | LOGIN_WITH_GOOGLE | USE_GEMINI | USE_VERTEX_AI | CLOUD_SHELL

fun AuthType_value :: "AuthType \<Rightarrow> string" where
  "AuthType_value USE_DEEPSEEK = ''deepseek-api-key''"
| "AuthType_value LOGIN_WITH_GOOGLE = ''oauth-personal''"
| "AuthType_value USE_GEMINI = ''gemini-api-key''"
| "AuthType_value USE_VERTEX_AI = ''vertex-ai''"
| "AuthType_value CLOUD_SHELL = ''cloud-shell''"

record ContentGeneratorConfig =
  cfg_model :: string
  apiKey :: "string option"
  baseURL :: "string option"
  authType :: "AuthType option"
  proxy :: "string option"

text \<open>The fields of \<^verbatim>\<open>process\<close> that \<^verbatim>\<open>createContentGenerator\<close> reads.\<close>

record Process =
  env_CLI_VERSION :: "string option"
  env_DEEPSEEK_API_KEY :: "string option"
  env_GEMINI_API_KEY :: "string option"
  version :: string
  platform :: string
  arch :: string

text \<open>The options object given to \<^verbatim>\<open>new OpenAI\<close>.\<close>

record OpenAI =
  oa_apiKey :: string
  oa_baseURL :: "string option"
  oa_userAgent :: string

record 'c DeepSeekContentGenerator =
  openai :: OpenAI
  config :: 'c
  ds_model :: string

text \<open>
  What a call of \<^verbatim>\<open>createContentGenerator\<close> does besides returning: the transport
  clients it constructs or asks for, in order. \<open>NewOpenAI\<close> is \<^verbatim>\<open>new OpenAI(...)\<close>,
  \<open>CreateCodeAssist\<close> the call of \<^verbatim>\<open>createCodeAssistContentGenerator\<close> with the user
  agent of its HTTP options and the authentication mode.
\<close>

datatype effect =
    NewOpenAI OpenAI
  | CreateCodeAssist string "AuthType option"

datatype ('c, 'g) ContentGenerator =
    DeepSeek "'c DeepSeekContentGenerator"
  | LoggingContentGenerator 'g 'c

subsection \<open>createContentGeneratorConfig\<close>

text \<open>
  \<^verbatim>\<open>DEFAULT_DEEPSEEK_MODEL\<close> of config/models.ts, and the two getters of the
  \<^verbatim>\<open>Config\<close> object that the function calls.
\<close>

definition DEFAULT_DEEPSEEK_MODEL :: string where
  "DEFAULT_DEEPSEEK_MODEL = ''deepseek-chat''"

record Config =
  getModel :: string
  getProxy :: "string option"

text \<open>\<^verbatim>\<open>process.env[name] || undefined\<close>.\<close>

definition env_or_undefined :: "string option \<Rightarrow> string option" where
  "env_or_undefined x = (if missing x then None else x)"

definition createContentGeneratorConfig ::
  "Process \<Rightarrow> Config \<Rightarrow> AuthType option \<Rightarrow> ContentGeneratorConfig" where
  "createContentGeneratorConfig process cfg authType' =
     (let deepSeekApiKey = env_or_undefined (env_DEEPSEEK_API_KEY process);
          effectiveModel = str_or (Some (getModel cfg)) DEFAULT_DEEPSEEK_MODEL;
          contentGeneratorConfig =
            \<lparr> cfg_model = effectiveModel, apiKey = None,
              baseURL = Some ''https://api.deepseek.com'',
              authType = authType', proxy = getProxy cfg \<rparr>
      in if authType' = Some USE_DEEPSEEK \<and> deepSeekApiKey \<noteq> None then
           contentGeneratorConfig\<lparr> apiKey := deepSeekApiKey \<rparr>
         else if authType' = Some LOGIN_WITH_GOOGLE \<or> authType' = Some CLOUD_SHELL then
           contentGeneratorConfig
         else
           (let geminiApiKey = env_or_undefined (env_GEMINI_API_KEY process)
            in if authType' = Some USE_GEMINI \<and> geminiApiKey \<noteq> None then
                 contentGeneratorConfig\<lparr> apiKey := geminiApiKey \<rparr>
               else contentGeneratorConfig))"

subsection \<open>Generator Factory: createContentGenerator\<close>

text \<open>The template literal \<^verbatim>\<open>${config.authType}\<close>.\<close>

definition authType_text :: "AuthType option \<Rightarrow> string" where
  "authType_text a = (case a of None \<Rightarrow> ''undefined'' | Some t \<Rightarrow> AuthType_value t)"

definition userAgent :: "Process \<Rightarrow> string" where
  "userAgent process =
     ''DeepSeekCLI/'' @ str_or (env_CLI_VERSION process) (version process)
       @ '' ('' @ platform process @ ''; '' @ arch process @ '')''"

text \<open>
  \<^verbatim>\<open>createCodeAssistContentGenerator\<close> lives in another module and may reject; it is
  the parameter \<open>createCodeAssist\<close>. The result of \<open>createContentGenerator\<close> is paired
  with the effects of the call.
\<close>

definition createContentGenerator ::
  "(string \<Rightarrow> AuthType option \<Rightarrow> 'c \<Rightarrow> string option \<Rightarrow> error + 'g) \<Rightarrow> Process \<Rightarrow>
   ContentGeneratorConfig \<Rightarrow> 'c \<Rightarrow> string option \<Rightarrow>
   (error + ('c, 'g) ContentGenerator) \<times> effect list" where
  "createContentGenerator createCodeAssist process cfg gcConfig sessionId =
     (if authType cfg = Some USE_DEEPSEEK then
        (if missing (apiKey cfg) then
           (Inl (Error
              ''DeepSeek API key is required. Please set DEEPSEEK_API_KEY environment variable.''),
            [])
         else
           (let client = \<lparr> oa_apiKey = obj_or (apiKey cfg) [],
                           oa_baseURL = baseURL cfg,
                           oa_userAgent = userAgent process \<rparr>
            in (Inr (DeepSeek \<lparr> openai = client, config = gcConfig,
                                ds_model = cfg_model cfg \<rparr>),
                [NewOpenAI client])))
      else if authType cfg = Some LOGIN_WITH_GOOGLE \<or> authType cfg = Some CLOUD_SHELL then
        (case createCodeAssist (userAgent process) (authType cfg) gcConfig sessionId of
           Inl e \<Rightarrow> (Inl e, [CreateCodeAssist (userAgent process) (authType cfg)])
         | Inr g \<Rightarrow> (Inr (LoggingContentGenerator g gcConfig),
                     [CreateCodeAssist (userAgent process) (authType cfg)]))
      else
        (Inl (Error (''Error creating contentGenerator: Unsupported authType: ''
                @ authType_text (authType cfg))),
         []))"

subsection \<open>Message Normalizer: convertGeminiToOpenAI\<close>

text \<open>The local variable \<^verbatim>\<open>messages\<close> when the function returns, or the error thrown.\<close>

definition convert_messages ::
  "('v \<Rightarrow> error + string option) \<Rightarrow> 'v GenerateContentParameters \<Rightarrow>
   error + 'v ChatCompletionMessageParam list" where
  "convert_messages stringify request =
     (case messages request of
        Some ms \<Rightarrow> Inr ms
      | None \<Rightarrow>
          (case contents request of
             Some cs \<Rightarrow>
               array_map
                 (\<lambda>(index, content).
                    case content_string stringify content of
                      Inl e \<Rightarrow> Inl e
                    | Inr c \<Rightarrow>
                        Inr \<lparr> mp_role = (if index mod 2 = 0 then ''user'' else ''assistant''),
                              mp_content = map_option JsString c \<rparr>)
                 (enumerate 0 cs)
           | None \<Rightarrow> Inr [\<lparr> mp_role = ''user'', mp_content = Some (JsString ''Hello'') \<rparr>]))"

definition convertGeminiToOpenAI ::
  "('v \<Rightarrow> error + string option) \<Rightarrow> 'c DeepSeekContentGenerator \<Rightarrow>
   'v GenerateContentParameters \<Rightarrow> error + 'v ChatCompletionCreateParams" where
  "convertGeminiToOpenAI stringify this request =
     (case convert_messages stringify request of
        Inl e \<Rightarrow> Inl e
      | Inr ms \<Rightarrow>
          Inr \<lparr> o_messages = ms,
                o_model = str_or (model request) (ds_model this),
                o_max_tokens = max_tokens request,
                o_temperature = temperature request,
                stream = None \<rparr>)"

subsection \<open>generateContent and generateContentStream\<close>

text \<open>
  \<^verbatim>\<open>this.openai.chat.completions.create\<close> is the transport, outside this
  repository: with \<^verbatim>\<open>stream: false\<close> it resolves to one completion or rejects, with
  \<^verbatim>\<open>stream: true\<close> to a stream of chunks, taken here as one that ends. An error
  thrown while the request is normalized rejects the call before the transport is
  reached.
\<close>

record 'v Transport =
  create :: "'v ChatCompletionCreateParams \<Rightarrow> error + ChatCompletion"
  create_stream :: "'v ChatCompletionCreateParams \<Rightarrow> error + ChatCompletionChunk list"

definition generateContent ::
  "('v \<Rightarrow> error + string option) \<Rightarrow> 'v Transport \<Rightarrow> 'c DeepSeekContentGenerator \<Rightarrow>
   'v GenerateContentParameters \<Rightarrow> error + GenerateContentResponse" where
  "generateContent stringify transport this request =
     (case convertGeminiToOpenAI stringify this request of
        Inl e \<Rightarrow> Inl e
      | Inr openaiRequest \<Rightarrow>
          (case create transport (openaiRequest\<lparr> stream := Some False \<rparr>) of
             Inl e \<Rightarrow> Inl e
           | Inr response \<Rightarrow> Inr (convertOpenAIToGemini response)))"

definition generateContentStream ::
  "('v \<Rightarrow> error + string option) \<Rightarrow> 'v Transport \<Rightarrow> 'c DeepSeekContentGenerator \<Rightarrow>
   'v GenerateContentParameters \<Rightarrow> error + GenerateContentResponse list" where
  "generateContentStream stringify transport this request =
     (case convertGeminiToOpenAI stringify this request of
        Inl e \<Rightarrow> Inl e
      | Inr openaiRequest \<Rightarrow>
          (case create_stream transport (openaiRequest\<lparr> stream := Some True \<rparr>) of
             Inl e \<Rightarrow> Inl e
           | Inr chunks \<Rightarrow> Inr (convertStreamToGenerator chunks)))"

subsection \<open>Token Estimator: countTokens\<close>

text \<open>
  \<^verbatim>\<open>Array.prototype.join\<close>: an \<^verbatim>\<open>undefined\<close> element contributes the empty
  string, and the separator stands between consecutive elements only.
\<close>

fun join :: "string option list \<Rightarrow> string \<Rightarrow> string" where
  "join [] sep = []"
| "join [x] sep = obj_or x []"
| "join (x # y # ys) sep = obj_or x [] @ sep @ join (y # ys) sep"

text \<open>The local variable \<^verbatim>\<open>totalContent\<close>, or the error thrown while it is built.\<close>

definition totalContent ::
  "('v \<Rightarrow> error + string option) \<Rightarrow> 'v CountTokensParameters \<Rightarrow> error + string" where
  "totalContent stringify request =
     (case ct_contents request of
        None \<Rightarrow> Inr []
      | Some cs \<Rightarrow>
          (case array_map (content_string stringify) cs of
             Inl e \<Rightarrow> Inl e
           | Inr forms \<Rightarrow> Inr (join forms '' '')))"

text \<open>
  \<^verbatim>\<open>Math.ceil(totalContent.length / 4)\<close>: the length is a natural number below
  \<open>2^53\<close> and the division by four is exact in binary floating point, so the quotient
  is the real one.
\<close>

definition countTokens ::
  "('v \<Rightarrow> error + string option) \<Rightarrow> 'v CountTokensParameters \<Rightarrow> error + CountTokensResponse" where
  "countTokens stringify request =
     (case totalContent stringify request of
        Inl e \<Rightarrow> Inl e
      | Inr s \<Rightarrow> Inr \<lparr> totalTokens = \<lceil>real (length s) / 4\<rceil> \<rparr>)"

subsection \<open>embedContent\<close>

text \<open>\<^verbatim>\<open>new Array(1536).fill(0)\<close>.\<close>

definition embedContent :: "'v EmbedContentParameters \<Rightarrow> error + EmbedContentResponse" where
  "embedContent request = Inr \<lparr> embedding = replicate 1536 0 \<rparr>"

section \<open>Properties\<close>

subsection \<open>Response Adapter\<close>

lemma str_or_empty_default [simp]:
  "str_or x [] = (case x of None \<Rightarrow> [] | Some s \<Rightarrow> s)"
  by (simp add: str_or_def split: option.splits)

lemma text_invariant_convert: "text_invariant (convertOpenAIToGemini response)"
  by (cases "cc_choices response")
     (auto simp: text_invariant_def convertOpenAIToGemini_def convert_choice_def
        first_choice_content_def split: option.splits list.splits)

text \<open>
  C1. For every Target Service response, the legacy response built by
  \<open>convertOpenAIToGemini\<close> satisfies the invariant: \<open>text\<close> equals
  \<open>choices[0].message.content\<close> of the result when its \<open>choices\<close> is non-empty, and
  is the empty string otherwise. Against the input, \<open>text\<close> is the first choice's
  content, with an absent (null) content read as the empty string.
\<close>

theorem convertOpenAIToGemini_text_invariant:
  "text_invariant (convertOpenAIToGemini response) \<and>
   resp_text (convertOpenAIToGemini response) =
     Some (case first_choice_content response of None \<Rightarrow> [] | Some s \<Rightarrow> s)"
  by (simp add: text_invariant_convert) (simp add: convertOpenAIToGemini_def)

subsection \<open>Stream Reassembler\<close>

lemma convertStreamToGenerator_map:
  "convertStreamToGenerator chunks = map (\<lambda>chunk. convertOpenAIToGemini (completion chunk)) chunks"
  by (induction chunks) simp_all

text \<open>
  C2. A stream of N chunks yields exactly N fragments, the i-th fragment being the
  Response Adapter applied to the envelope synthesized from the i-th chunk, and every
  fragment satisfies the invariant of a non-streaming response.
\<close>

theorem convertStreamToGenerator_fragments:
  "length (convertStreamToGenerator chunks) = length chunks \<and>
   (\<forall>i < length chunks.
      convertStreamToGenerator chunks ! i = convertOpenAIToGemini (completion (chunks ! i)) \<and>
      text_invariant (convertStreamToGenerator chunks ! i))"
  by (simp add: convertStreamToGenerator_map text_invariant_convert)

theorem convertStreamToGenerator_fragments_witness:
  "(let chunks =
      [\<lparr> chunk_id = ''c1'', chunk_created = 1, chunk_model = ''deepseek-chat'',
         chunk_choices = Some [\<lparr> ck_index = 0,
           delta = Some \<lparr> delta_role = Some ''assistant'', delta_content = Some ''Hel'' \<rparr>,
           ck_finish_reason = None \<rparr>], chunk_usage = None \<rparr>,
       \<lparr> chunk_id = ''c1'', chunk_created = 1, chunk_model = ''deepseek-chat'',
         chunk_choices = Some [\<lparr> ck_index = 0,
           delta = Some \<lparr> delta_role = None, delta_content = Some ''lo'' \<rparr>,
           ck_finish_reason = Some ''stop'' \<rparr>], chunk_usage = None \<rparr>]
    in length (convertStreamToGenerator chunks) = 2 \<and>
       text_invariant (convertStreamToGenerator chunks ! 1) \<and>
       map resp_text (convertStreamToGenerator chunks) = [Some ''Hel'', Some ''lo''])"
  (is "Let ?chunks _")
proof -
  have len: "length ?chunks = 2" by simp
  have "length (convertStreamToGenerator ?chunks) = length ?chunks"
    using convertStreamToGenerator_fragments [of ?chunks] by (rule conjunct1)
  moreover have "text_invariant (convertStreamToGenerator ?chunks ! 1)"
    using convertStreamToGenerator_fragments [of ?chunks, THEN conjunct2, rule_format, of 1]
    by simp
  moreover have "map resp_text (convertStreamToGenerator ?chunks) = [Some ''Hel'', Some ''lo'']"
    by (simp add: convertOpenAIToGemini_def completion_def completion_choice_def
          first_choice_content_def obj_or_def)
  ultimately show ?thesis by (simp add: Let_def)
qed

text \<open>
  C9. The envelope synthesized from a chunk copies the chunk's id, model and created
  timestamp; each choice's delta role and content become \<open>message.role\<close> and
  \<open>message.content\<close>, with \<open>assistant\<close> for a role that is missing or empty and
  the empty string for a missing content (also when the whole delta is missing, or the
  choices are). A chunk without a usage object gets one with the three counters at
  zero; a usage object that is present is copied as it is, and a counter it lacks
  stays missing.
\<close>

theorem completion_envelope:
  "cc_id (completion chunk) = chunk_id chunk \<and>
   cc_model (completion chunk) = chunk_model chunk \<and>
   cc_created (completion chunk) = chunk_created chunk \<and>
   cc_choices (completion chunk) =
     Some (map (\<lambda>choice.
             \<lparr> index = ck_index choice,
               message = Some
                 \<lparr> msg_role =
                     (case delta choice of
                        None \<Rightarrow> ''assistant''
                      | Some d \<Rightarrow> (case delta_role d of
                                     None \<Rightarrow> ''assistant''
                                   | Some r \<Rightarrow> if r = [] then ''assistant'' else r)),
                   msg_content =
                     Some (case delta choice of
                             None \<Rightarrow> ''''
                           | Some d \<Rightarrow> (case delta_content d of
                                          None \<Rightarrow> ''''
                                        | Some s \<Rightarrow> s)) \<rparr>,
               finish_reason = ck_finish_reason choice \<rparr>)
           (case chunk_choices chunk of None \<Rightarrow> [] | Some cs \<Rightarrow> cs)) \<and>
   cc_usage (completion chunk) =
     Some (case chunk_usage chunk of
             None \<Rightarrow> \<lparr> prompt_tokens = Some 0, completion_tokens = Some 0,
                      total_tokens = Some 0 \<rparr>
           | Some u \<Rightarrow> u)"
  by (auto simp: completion_def completion_choice_def obj_or_def str_or_def
        split: option.splits)

text \<open>
  A chunk whose usage object carries only \<open>prompt_tokens\<close> and whose delta has the
  empty role: the envelope's \<open>completion_tokens\<close> and \<open>total_tokens\<close> are missing,
  not zero, and its role is \<open>assistant\<close>, not the delta's role.
\<close>

theorem completion_envelope_counterexample:
  "cc_usage (completion
     \<lparr> chunk_id = ''c1'', chunk_created = 1, chunk_model = ''deepseek-chat'',
       chunk_choices = Some [\<lparr> ck_index = 0,
         delta = Some \<lparr> delta_role = Some [], delta_content = Some ''hi'' \<rparr>,
         ck_finish_reason = None \<rparr>],
       chunk_usage = Some \<lparr> prompt_tokens = Some 5, completion_tokens = None,
                            total_tokens = None \<rparr> \<rparr>) =
     Some \<lparr> prompt_tokens = Some 5, completion_tokens = None, total_tokens = None \<rparr> \<and>
   cc_choices (completion
     \<lparr> chunk_id = ''c1'', chunk_created = 1, chunk_model = ''deepseek-chat'',
       chunk_choices = Some [\<lparr> ck_index = 0,
         delta = Some \<lparr> delta_role = Some [], delta_content = Some ''hi'' \<rparr>,
         ck_finish_reason = None \<rparr>],
       chunk_usage = Some \<lparr> prompt_tokens = Some 5, completion_tokens = None,
                            total_tokens = None \<rparr> \<rparr>) =
     Some [\<lparr> index = 0,
             message = Some \<lparr> msg_role = ''assistant'', msg_content = Some ''hi'' \<rparr>,
             finish_reason = None \<rparr>]"
  by (simp add: completion_def completion_choice_def obj_or_def str_or_def)

subsection \<open>Message Normalizer\<close>

lemma array_map_ok:
  "(\<forall>x \<in> set xs. \<not> isl (f x)) \<Longrightarrow> array_map f xs = Inr (map (\<lambda>x. projr (f x)) xs)"
  by (induction xs) (auto split: sum.splits)

lemma array_map_fail:
  "(\<exists>x \<in> set xs. isl (f x)) \<Longrightarrow> \<exists>e. array_map f xs = Inl e"
proof (induction xs)
  case Nil
  then show ?case by simp
next
  case (Cons a xs)
  show ?case
  proof (cases "f a")
    case (Inl e)
    then show ?thesis by simp
  next
    case (Inr y)
    with Cons.prems have "\<exists>x \<in> set xs. isl (f x)" by auto
    from Cons.IH [OF this] obtain e where "array_map f xs = Inl e" ..
    with Inr show ?thesis by simp
  qed
qed

lemma snd_enumerate_in_set: "p \<in> set (enumerate n xs) \<Longrightarrow> snd p \<in> set xs"
  by (cases p) (auto simp: enumerate_eq_zip dest: set_zip_rightD)

lemma isl_content_string:
  "isl (content_string stringify c) \<longleftrightarrow> (\<exists>v. c = JsOther v \<and> isl (stringify v))"
  by (cases c) (simp_all add: content_string_def)

lemma convert_messages_ok:
  assumes "messages request = None" and "contents request = Some cs"
    and "\<forall>v. JsOther v \<in> set cs \<longrightarrow> \<not> isl (stringify v)"
  shows "convert_messages stringify request =
     Inr (map (\<lambda>(i, c).
            \<lparr> mp_role = (if even i then ''user'' else ''assistant''),
              mp_content =
                (case c of
                   JsString s \<Rightarrow> Some (JsString s)
                 | JsOther v \<Rightarrow>
                     (case stringify v of
                        Inl e \<Rightarrow> None
                      | Inr x \<Rightarrow> map_option JsString x)) \<rparr>)
          (enumerate 0 cs))"
proof -
  let ?g = "\<lambda>(index, content).
              case content_string stringify content of
                Inl e \<Rightarrow> Inl e
              | Inr c \<Rightarrow>
                  Inr \<lparr> mp_role = (if index mod 2 = 0 then ''user'' else ''assistant''),
                        mp_content = map_option JsString c \<rparr>"
  have ok: "\<forall>p \<in> set (enumerate 0 cs). \<not> isl (?g p)"
  proof
    fix p assume "p \<in> set (enumerate 0 cs)"
    then have "snd p \<in> set cs" by (rule snd_enumerate_in_set)
    with assms(3) have "\<not> isl (content_string stringify (snd p))"
      by (auto simp: isl_content_string)
    then show "\<not> isl (?g p)" by (cases p) (auto split: sum.splits)
  qed
  have "convert_messages stringify request = array_map ?g (enumerate 0 cs)"
    using assms(1,2) by (simp add: convert_messages_def)
  also have "\<dots> = Inr (map (\<lambda>p. projr (?g p)) (enumerate 0 cs))"
    using ok by (rule array_map_ok)
  also have "map (\<lambda>p. projr (?g p)) (enumerate 0 cs) =
     map (\<lambda>(i, c).
            \<lparr> mp_role = (if even i then ''user'' else ''assistant''),
              mp_content =
                (case c of
                   JsString s \<Rightarrow> Some (JsString s)
                 | JsOther v \<Rightarrow>
                     (case stringify v of
                        Inl e \<Rightarrow> None
                      | Inr x \<Rightarrow> map_option JsString x)) \<rparr>)
          (enumerate 0 cs)"
  proof (rule map_cong [OF refl])
    fix p assume p: "p \<in> set (enumerate 0 cs)"
    then have "snd p \<in> set cs" by (rule snd_enumerate_in_set)
    with assms(3) have "\<forall>v. snd p = JsOther v \<longrightarrow> \<not> isl (stringify v)" by auto
    then show "projr (?g p) = (case p of (i, c) \<Rightarrow>
            \<lparr> mp_role = (if even i then ''user'' else ''assistant''),
              mp_content =
                (case c of
                   JsString s \<Rightarrow> Some (JsString s)
                 | JsOther v \<Rightarrow>
                     (case stringify v of
                        Inl e \<Rightarrow> None
                      | Inr x \<Rightarrow> map_option JsString x)) \<rparr>)"
      by (cases p)
         (auto simp: content_string_def even_iff_mod_2_eq_zero split: any.splits sum.splits)
  qed
  finally show ?thesis .
qed

lemma convert_messages_fail:
  assumes "messages request = None" and "contents request = Some cs"
    and "\<exists>v. JsOther v \<in> set cs \<and> isl (stringify v)"
  shows "\<exists>e. convert_messages stringify request = Inl e"
proof -
  let ?g = "\<lambda>(index, content).
              case content_string stringify content of
                Inl e \<Rightarrow> Inl e
              | Inr c \<Rightarrow>
                  Inr \<lparr> mp_role = (if index mod 2 = 0 then ''user'' else ''assistant''),
                        mp_content = map_option JsString c \<rparr>"
  from assms(3) obtain v where v: "JsOther v \<in> set cs" "isl (stringify v)" by blast
  then obtain i where i: "i < length cs" "cs ! i = JsOther v" by (auto simp: in_set_conv_nth)
  then have "(i, JsOther v) \<in> set (enumerate 0 cs)" by (auto simp: in_set_enumerate_eq)
  moreover have "isl (?g (i, JsOther v))"
    using v(2) by (auto simp: content_string_def split: sum.splits)
  ultimately have "\<exists>p \<in> set (enumerate 0 cs). isl (?g p)" by blast
  then have "\<exists>e. array_map ?g (enumerate 0 cs) = Inl e" by (rule array_map_fail)
  then show ?thesis using assms(1,2) by (simp add: convert_messages_def)
qed

text \<open>
  C3. For a request with a \<open>contents\<close> sequence and no \<open>messages\<close>: when
  \<^verbatim>\<open>JSON.stringify\<close> throws on none of the elements that are not strings, the
  normalizer produces one message per element; the message at index \<open>i\<close> has role
  \<open>user\<close> when \<open>i\<close> is even and \<open>assistant\<close> when \<open>i\<close> is odd; a string element is
  its content as it is, any other element is given to \<^verbatim>\<open>JSON.stringify\<close> and the
  result is the content; three elements give the roles user, assistant, user. When
  \<^verbatim>\<open>JSON.stringify\<close> throws on an element, the normalizer fails with an error.
\<close>

theorem convertGeminiToOpenAI_contents_parity:
  assumes "messages request = None" and "contents request = Some cs"
  shows "((\<forall>v. JsOther v \<in> set cs \<longrightarrow> \<not> isl (stringify v)) \<longrightarrow>
      (\<exists>r. convertGeminiToOpenAI stringify this request = Inr r \<and>
         length (o_messages r) = length cs \<and>
         (\<forall>i < length cs.
            mp_role (o_messages r ! i) = (if even i then ''user'' else ''assistant'') \<and>
            mp_content (o_messages r ! i) =
              (case cs ! i of
                 JsString s \<Rightarrow> Some (JsString s)
               | JsOther v \<Rightarrow>
                   (case stringify v of
                      Inl e \<Rightarrow> None
                    | Inr x \<Rightarrow> map_option JsString x))) \<and>
         (\<forall>a b c. cs = [a, b, c] \<longrightarrow>
            map mp_role (o_messages r) = [''user'', ''assistant'', ''user'']))) \<and>
    ((\<exists>v. JsOther v \<in> set cs \<and> isl (stringify v)) \<longrightarrow>
      (\<exists>e. convertGeminiToOpenAI stringify this request = Inl e))"
proof (intro conjI impI)
  assume ok: "\<forall>v. JsOther v \<in> set cs \<longrightarrow> \<not> isl (stringify v)"
  show "\<exists>r. convertGeminiToOpenAI stringify this request = Inr r \<and>
         length (o_messages r) = length cs \<and>
         (\<forall>i < length cs.
            mp_role (o_messages r ! i) = (if even i then ''user'' else ''assistant'') \<and>
            mp_content (o_messages r ! i) =
              (case cs ! i of
                 JsString s \<Rightarrow> Some (JsString s)
               | JsOther v \<Rightarrow>
                   (case stringify v of
                      Inl e \<Rightarrow> None
                    | Inr x \<Rightarrow> map_option JsString x))) \<and>
         (\<forall>a b c. cs = [a, b, c] \<longrightarrow>
            map mp_role (o_messages r) = [''user'', ''assistant'', ''user''])"
    by (auto simp: convertGeminiToOpenAI_def convert_messages_ok [OF assms ok]
          nth_enumerate_eq)
next
  assume "\<exists>v. JsOther v \<in> set cs \<and> isl (stringify v)"
  from convert_messages_fail [OF assms this]
  show "\<exists>e. convertGeminiToOpenAI stringify this request = Inl e"
    by (auto simp: convertGeminiToOpenAI_def)
qed

theorem convertGeminiToOpenAI_contents_parity_witness:
  "(let this = \<lparr> openai = \<lparr> oa_apiKey = ''k'', oa_baseURL = None, oa_userAgent = ''ua'' \<rparr>,
                 config = (), ds_model = ''deepseek-chat'' \<rparr>;
        request = \<lparr> contents = Some [JsString ''hi'', JsOther Null, JsOther Undefined],
                    model = None, messages = None, max_tokens = None, temperature = None \<rparr>
    in convertGeminiToOpenAI JSON_stringify this request =
         Inr \<lparr> o_messages =
                 [\<lparr> mp_role = ''user'', mp_content = Some (JsString ''hi'') \<rparr>,
                  \<lparr> mp_role = ''assistant'', mp_content = Some (JsString ''null'') \<rparr>,
                  \<lparr> mp_role = ''user'', mp_content = None \<rparr>],
               o_model = ''deepseek-chat'', o_max_tokens = None, o_temperature = None,
               stream = None \<rparr>)"
  (is "Let ?gen (\<lambda>_. Let ?request _)")
proof -
  let ?cs = "[JsString ''hi'', JsOther Null, JsOther Undefined]"
  have m: "messages ?request = None" and c: "contents ?request = Some ?cs" by simp_all
  have ok: "\<forall>v. JsOther v \<in> set ?cs \<longrightarrow> \<not> isl (JSON_stringify v)" by auto
  from convertGeminiToOpenAI_contents_parity [OF m c, of JSON_stringify ?gen, THEN conjunct1,
      THEN mp, OF ok]
  obtain r where r: "convertGeminiToOpenAI JSON_stringify ?gen ?request = Inr r"
    and roles: "map mp_role (o_messages r) = [''user'', ''assistant'', ''user'']"
    by blast
  have "convertGeminiToOpenAI JSON_stringify ?gen ?request =
         Inr \<lparr> o_messages =
                 [\<lparr> mp_role = ''user'', mp_content = Some (JsString ''hi'') \<rparr>,
                  \<lparr> mp_role = ''assistant'', mp_content = Some (JsString ''null'') \<rparr>,
                  \<lparr> mp_role = ''user'', mp_content = None \<rparr>],
               o_model = ''deepseek-chat'', o_max_tokens = None, o_temperature = None,
               stream = None \<rparr>"
    by (simp add: convertGeminiToOpenAI_def convert_messages_def content_string_def str_or_def)
  then show ?thesis by (simp add: Let_def)
qed

text \<open>
  Three contents, the second a BigInt: no message is produced, the normalizer fails
  with the \<^verbatim>\<open>TypeError\<close> of \<^verbatim>\<open>JSON.stringify\<close>.
\<close>

theorem convertGeminiToOpenAI_contents_parity_counterexample:
  "convertGeminiToOpenAI JSON_stringify
     \<lparr> openai = \<lparr> oa_apiKey = ''k'', oa_baseURL = None, oa_userAgent = ''ua'' \<rparr>,
       config = (), ds_model = ''deepseek-chat'' \<rparr>
     \<lparr> contents = Some [JsString ''a'', JsOther (BigInt 1), JsString ''c''],
       model = None, messages = None, max_tokens = None, temperature = None \<rparr> =
   Inl (TypeError ''Do not know how to serialize a BigInt'')"
  by (simp add: convertGeminiToOpenAI_def convert_messages_def content_string_def)

text \<open>
  C4. For a request with an explicit \<open>messages\<close> sequence, the normalizer succeeds
  and the messages of the normalized request are that sequence, unchanged.
\<close>

theorem convertGeminiToOpenAI_messages_verbatim:
  "messages request = Some ms \<Longrightarrow>
   \<exists>r. convertGeminiToOpenAI stringify this request = Inr r \<and> o_messages r = ms"
  by (simp add: convertGeminiToOpenAI_def convert_messages_def)

theorem convertGeminiToOpenAI_messages_verbatim_witness:
  "(let this = \<lparr> openai = \<lparr> oa_apiKey = ''k'', oa_baseURL = None, oa_userAgent = ''ua'' \<rparr>,
                 config = (), ds_model = ''deepseek-chat'' \<rparr>;
        request = \<lparr> contents = Some [JsOther (BigInt 1)], model = None,
          messages = Some [\<lparr> mp_role = ''system'', mp_content = Some (JsString ''be brief'') \<rparr>,
                           \<lparr> mp_role = ''user'', mp_content = Some (JsOther Null) \<rparr>],
          max_tokens = None, temperature = None \<rparr>
    in convertGeminiToOpenAI JSON_stringify this request =
         Inr \<lparr> o_messages =
                 [\<lparr> mp_role = ''system'', mp_content = Some (JsString ''be brief'') \<rparr>,
                  \<lparr> mp_role = ''user'', mp_content = Some (JsOther Null) \<rparr>],
               o_model = ''deepseek-chat'', o_max_tokens = None, o_temperature = None,
               stream = None \<rparr>)"
  (is "Let ?gen (\<lambda>_. Let ?request _)")
proof -
  have m: "messages ?request =
      Some [\<lparr> mp_role = ''system'', mp_content = Some (JsString ''be brief'') \<rparr>,
            \<lparr> mp_role = ''user'', mp_content = Some (JsOther Null) \<rparr>]" by simp
  from convertGeminiToOpenAI_messages_verbatim [OF m, of JSON_stringify ?gen]
  obtain r where "convertGeminiToOpenAI JSON_stringify ?gen ?request = Inr r"
    and "o_messages r =
      [\<lparr> mp_role = ''system'', mp_content = Some (JsString ''be brief'') \<rparr>,
       \<lparr> mp_role = ''user'', mp_content = Some (JsOther Null) \<rparr>]" by blast
  then show ?thesis
    by (simp add: Let_def convertGeminiToOpenAI_def convert_messages_def str_or_def)
qed

subsection \<open>Token Estimator\<close>

lemma join_Cons:
  "join (x # xs) sep = obj_or x [] @ concat (map (\<lambda>y. sep @ obj_or y []) xs)"
  by (induction xs arbitrary: x) simp_all

lemma ceiling_quarter: "\<lceil>real n / 4\<rceil> = (int n + 3) div 4"
proof -
  have "\<lceil>real n / 4\<rceil> = \<lceil>of_int (int n) / (of_int 4 :: real)\<rceil>" by simp
  also have "\<dots> = - (- int n div 4)" by (rule ceiling_divide_eq_div)
  also have "\<dots> = (int n + 3) div 4" by presburger
  finally show ?thesis .
qed

lemma content_string_form:
  "\<not> isl (content_string stringify c) \<Longrightarrow>
   obj_or (projr (content_string stringify c)) [] =
     (case c of
        JsString s \<Rightarrow> s
      | JsOther v \<Rightarrow> (case stringify v of Inr (Some s) \<Rightarrow> s | _ \<Rightarrow> []))"
  by (cases c) (auto simp: content_string_def obj_or_def split: sum.splits option.splits)

lemma totalContent_ok:
  assumes "\<forall>v. JsOther v \<in> set (case ct_contents request of None \<Rightarrow> [] | Some cs \<Rightarrow> cs) \<longrightarrow>
             \<not> isl (stringify v)"
  shows "totalContent stringify request =
     Inr (case (case ct_contents request of None \<Rightarrow> [] | Some cs \<Rightarrow> cs) of
            [] \<Rightarrow> []
          | c # ds \<Rightarrow>
              (case c of
                 JsString s \<Rightarrow> s
               | JsOther v \<Rightarrow> (case stringify v of Inr (Some s) \<Rightarrow> s | _ \<Rightarrow> [])) @
              concat (map (\<lambda>d. '' '' @
                (case d of
                   JsString s \<Rightarrow> s
                 | JsOther v \<Rightarrow> (case stringify v of Inr (Some s) \<Rightarrow> s | _ \<Rightarrow> []))) ds))"
proof (cases "ct_contents request")
  case None
  then show ?thesis by (simp add: totalContent_def)
next
  case (Some cs)
  with assms have ok: "\<forall>c \<in> set cs. \<not> isl (content_string stringify c)"
    by (auto simp: isl_content_string)
  have "totalContent stringify request =
      Inr (join (map (\<lambda>c. projr (content_string stringify c)) cs) '' '')"
    using Some by (simp add: totalContent_def array_map_ok [OF ok])
  also have "join (map (\<lambda>c. projr (content_string stringify c)) cs) '' '' =
     (case cs of
            [] \<Rightarrow> []
          | c # ds \<Rightarrow>
              (case c of
                 JsString s \<Rightarrow> s
               | JsOther v \<Rightarrow> (case stringify v of Inr (Some s) \<Rightarrow> s | _ \<Rightarrow> [])) @
              concat (map (\<lambda>d. '' '' @
                (case d of
                   JsString s \<Rightarrow> s
                 | JsOther v \<Rightarrow> (case stringify v of Inr (Some s) \<Rightarrow> s | _ \<Rightarrow> []))) ds))"
  proof (cases cs)
    case Nil
    then show ?thesis by simp
  next
    case (Cons c ds)
    with ok have c: "\<not> isl (content_string stringify c)"
      and ds: "\<forall>d \<in> set ds. \<not> isl (content_string stringify d)" by auto
    have "map (\<lambda>y. '' '' @ obj_or y []) (map (\<lambda>c. projr (content_string stringify c)) ds) =
        map (\<lambda>d. '' '' @
                (case d of
                   JsString s \<Rightarrow> s
                 | JsOther v \<Rightarrow> (case stringify v of Inr (Some s) \<Rightarrow> s | _ \<Rightarrow> []))) ds"
      unfolding map_map comp_def
    proof (rule map_cong [OF refl])
      fix d assume "d \<in> set ds"
      with ds have "\<not> isl (content_string stringify d)" by blast
      from content_string_form [OF this]
      show "'' '' @ obj_or (projr (content_string stringify d)) [] =
         '' '' @ (case d of
                   JsString s \<Rightarrow> s
                 | JsOther v \<Rightarrow> (case stringify v of Inr (Some s) \<Rightarrow> s | _ \<Rightarrow> []))"
        by simp
    qed
    then show ?thesis
      unfolding Cons list.map join_Cons list.case
      by (simp only: content_string_form [OF c])
  qed
  finally show ?thesis using Some by simp
qed

lemma totalContent_fail:
  assumes "\<exists>v. JsOther v \<in> set (case ct_contents request of None \<Rightarrow> [] | Some cs \<Rightarrow> cs) \<and>
             isl (stringify v)"
  shows "\<exists>e. totalContent stringify request = Inl e"
proof (cases "ct_contents request")
  case None
  with assms show ?thesis by simp
next
  case (Some cs)
  with assms have "\<exists>c \<in> set cs. isl (content_string stringify c)"
    by (auto simp: isl_content_string)
  from array_map_fail [OF this]
  obtain e where "array_map (content_string stringify) cs = Inl e" ..
  with Some show ?thesis by (simp add: totalContent_def)
qed

text \<open>
  C5. When \<^verbatim>\<open>JSON.stringify\<close> throws on none of the content elements that are not
  strings, \<open>countTokens\<close> returns \<open>ceil(L / 4)\<close>, where \<open>L\<close> is the length of the
  string made of the forms of the content elements (a string as it is, any other
  element through \<^verbatim>\<open>JSON.stringify\<close>, \<^verbatim>\<open>undefined\<close> as the empty string) with
  one space between consecutive forms; when it throws on an element, \<open>countTokens\<close>
  fails with an error. The contents \<open>abcd\<close>, \<open>efgh\<close> join to \<open>abcd efgh\<close>, of
  length 9, and give 3 tokens.
\<close>

theorem countTokens_estimate:
  "(let cs = (case ct_contents request of None \<Rightarrow> [] | Some cs \<Rightarrow> cs);
        form = (\<lambda>c. case c of
                       JsString s \<Rightarrow> s
                     | JsOther v \<Rightarrow> (case stringify v of Inr (Some s) \<Rightarrow> s | _ \<Rightarrow> []));
        joined = (case cs of
                    [] \<Rightarrow> []
                  | c # ds \<Rightarrow> form c @ concat (map (\<lambda>d. '' '' @ form d) ds))
    in ((\<forall>v. JsOther v \<in> set cs \<longrightarrow> \<not> isl (stringify v)) \<longrightarrow>
          countTokens stringify request =
            Inr \<lparr> totalTokens = \<lceil>real (length joined) / 4\<rceil> \<rparr>) \<and>
       ((\<exists>v. JsOther v \<in> set cs \<and> isl (stringify v)) \<longrightarrow>
          (\<exists>e. countTokens stringify request = Inl e))) \<and>
   totalContent stringify
     \<lparr> ct_model = m, ct_contents = Some [JsString ''abcd'', JsString ''efgh''] \<rparr> =
     Inr ''abcd efgh'' \<and>
   length ''abcd efgh'' = 9 \<and>
   countTokens stringify
     \<lparr> ct_model = m, ct_contents = Some [JsString ''abcd'', JsString ''efgh''] \<rparr> =
     Inr \<lparr> totalTokens = 3 \<rparr>"
proof -
  have c: "totalContent stringify
      \<lparr> ct_model = m, ct_contents = Some [JsString ''abcd'', JsString ''efgh''] \<rparr> =
      Inr ''abcd efgh''"
    by (simp add: totalContent_def content_string_def obj_or_def)
  have d: "countTokens stringify
      \<lparr> ct_model = m, ct_contents = Some [JsString ''abcd'', JsString ''efgh''] \<rparr> =
     Inr \<lparr> totalTokens = 3 \<rparr>"
    unfolding countTokens_def c ceiling_quarter by simp
  show ?thesis
    unfolding Let_def
  proof (intro conjI impI)
    assume "\<forall>v. JsOther v \<in> set (case ct_contents request of None \<Rightarrow> [] | Some cs \<Rightarrow> cs) \<longrightarrow>
             \<not> isl (stringify v)"
    from totalContent_ok [OF this]
    show "countTokens stringify request =
       Inr \<lparr> totalTokens = \<lceil>real (length
         (case (case ct_contents request of None \<Rightarrow> [] | Some cs \<Rightarrow> cs) of
            [] \<Rightarrow> []
          | c # ds \<Rightarrow>
              (case c of
                 JsString s \<Rightarrow> s
               | JsOther v \<Rightarrow> (case stringify v of Inr (Some s) \<Rightarrow> s | _ \<Rightarrow> [])) @
              concat (map (\<lambda>d. '' '' @
                (case d of
                   JsString s \<Rightarrow> s
                 | JsOther v \<Rightarrow> (case stringify v of Inr (Some s) \<Rightarrow> s | _ \<Rightarrow> []))) ds))) / 4\<rceil> \<rparr>"
      by (simp add: countTokens_def)
  next
    assume "\<exists>v. JsOther v \<in> set (case ct_contents request of None \<Rightarrow> [] | Some cs \<Rightarrow> cs) \<and>
             isl (stringify v)"
    from totalContent_fail [OF this]
    show "\<exists>e. countTokens stringify request = Inl e"
      by (auto simp: countTokens_def)
  qed (simp_all add: c d)
qed

theorem countTokens_estimate_witness:
  "countTokens JSON_stringify
     \<lparr> ct_model = ''deepseek-chat'',
       ct_contents = Some [JsString ''abcd'', JsOther Null, JsOther Undefined] \<rparr> =
     Inr \<lparr> totalTokens = 3 \<rparr> \<and>
   (\<exists>e. countTokens JSON_stringify
     \<lparr> ct_model = ''deepseek-chat'',
       ct_contents = Some [JsString ''abcd'', JsOther (BigInt 1)] \<rparr> = Inl e)"
proof -
  let ?ok = "\<lparr> ct_model = ''deepseek-chat'',
       ct_contents = Some [JsString ''abcd'', JsOther Null, JsOther Undefined] \<rparr>"
  let ?bad = "\<lparr> ct_model = ''deepseek-chat'',
       ct_contents = Some [JsString ''abcd'', JsOther (BigInt 1)] \<rparr>"
  have ok: "\<forall>v. JsOther v \<in> set (case ct_contents ?ok of None \<Rightarrow> [] | Some cs \<Rightarrow> cs) \<longrightarrow>
              \<not> isl (JSON_stringify v)" by auto
  have bad: "\<exists>v. JsOther v \<in> set (case ct_contents ?bad of None \<Rightarrow> [] | Some cs \<Rightarrow> cs) \<and>
              isl (JSON_stringify v)" by auto
  have "countTokens JSON_stringify ?ok = Inr \<lparr> totalTokens = 3 \<rparr>"
    using countTokens_estimate [of ?ok JSON_stringify, unfolded Let_def, THEN conjunct1,
        THEN conjunct1, THEN mp, OF ok]
    by (simp add: ceiling_quarter)
  moreover have "\<exists>e. countTokens JSON_stringify ?bad = Inl e"
    using countTokens_estimate [of ?bad JSON_stringify, unfolded Let_def, THEN conjunct1,
        THEN conjunct2, THEN mp, OF bad] .
  ultimately show ?thesis by simp
qed

text \<open>
  Two contents, the second a BigInt: \<open>countTokens\<close> returns no estimate, it fails
  with the \<^verbatim>\<open>TypeError\<close> of \<^verbatim>\<open>JSON.stringify\<close>.
\<close>

theorem countTokens_estimate_counterexample:
  "countTokens JSON_stringify
     \<lparr> ct_model = ''deepseek-chat'',
       ct_contents = Some [JsString ''abcd'', JsOther (BigInt 1)] \<rparr> =
   Inl (TypeError ''Do not know how to serialize a BigInt'')"
  by (simp add: countTokens_def totalContent_def content_string_def)

subsection \<open>Generator Factory\<close>

text \<open>
  C6. With the authentication mode \<open>USE_DEEPSEEK\<close> and no API key (absent, or
  empty), \<open>createContentGenerator\<close> fails with the error that asks for the key, and
  has constructed no transport client.
\<close>

theorem createContentGenerator_missing_key:
  assumes "authType cfg = Some USE_DEEPSEEK"
    and "apiKey cfg = None \<or> apiKey cfg = Some []"
  shows "createContentGenerator createCodeAssist process cfg gcConfig sessionId =
     (Inl (Error
        ''DeepSeek API key is required. Please set DEEPSEEK_API_KEY environment variable.''),
      [])"
  using assms by (auto simp: createContentGenerator_def missing_def)

theorem createContentGenerator_missing_key_witness:
  "createContentGenerator (\<lambda>ua a (c::unit) s. Inr ())
     \<lparr> env_CLI_VERSION = None, env_DEEPSEEK_API_KEY = None,
       env_GEMINI_API_KEY = None, version = ''v20.0.0'', platform = ''linux'', arch = ''x64'' \<rparr>
     \<lparr> cfg_model = ''deepseek-chat'', apiKey = None, baseURL = Some ''https://api.deepseek.com'',
       authType = Some USE_DEEPSEEK, proxy = None \<rparr> () None =
     (Inl (Error
        ''DeepSeek API key is required. Please set DEEPSEEK_API_KEY environment variable.''),
      [])"
  by (rule createContentGenerator_missing_key) simp_all

lemma authType_text_inj: "authType_text a = authType_text b \<Longrightarrow> a = b"
  by (cases a; cases b; (cases "the a")?; (cases "the b")?) (simp_all add: authType_text_def)

text \<open>
  C7. With an authentication mode that the dispatcher does not support (any mode but
  \<open>USE_DEEPSEEK\<close>, \<open>LOGIN_WITH_GOOGLE\<close> and \<open>CLOUD_SHELL\<close>, or none),
  \<open>createContentGenerator\<close> fails with an error whose message ends with the text of
  that mode, has constructed no transport client, and no other mode has that text.
\<close>

theorem createContentGenerator_unsupported_authType:
  assumes "authType cfg \<notin> {Some USE_DEEPSEEK, Some LOGIN_WITH_GOOGLE, Some CLOUD_SHELL}"
  shows "createContentGenerator createCodeAssist process cfg gcConfig sessionId =
     (Inl (Error (''Error creating contentGenerator: Unsupported authType: ''
             @ authType_text (authType cfg))),
      []) \<and>
     (\<forall>a. authType_text a = authType_text (authType cfg) \<longrightarrow> a = authType cfg)"
  using assms by (auto simp: createContentGenerator_def dest: authType_text_inj)

theorem createContentGenerator_unsupported_authType_witness:
  "createContentGenerator (\<lambda>ua a (c::unit) s. Inr ())
     \<lparr> env_CLI_VERSION = None, env_DEEPSEEK_API_KEY = None,
       env_GEMINI_API_KEY = None, version = ''v20.0.0'', platform = ''linux'', arch = ''x64'' \<rparr>
     \<lparr> cfg_model = ''deepseek-chat'', apiKey = Some ''key'', baseURL = None,
       authType = Some USE_GEMINI, proxy = None \<rparr> () None =
     (Inl (Error ''Error creating contentGenerator: Unsupported authType: gemini-api-key''), []) \<and>
   authType_text None \<noteq> authType_text (Some USE_GEMINI)"
  using createContentGenerator_unsupported_authType [of
     "\<lparr> cfg_model = ''deepseek-chat'', apiKey = Some ''key'', baseURL = None,
       authType = Some USE_GEMINI, proxy = None \<rparr>"
     "\<lambda>ua a (c::unit) s. Inr ()"
     "\<lparr> env_CLI_VERSION = None, env_DEEPSEEK_API_KEY = None,
       env_GEMINI_API_KEY = None, version = ''v20.0.0'', platform = ''linux'', arch = ''x64'' \<rparr>"
     "()" None]
  by (simp add: authType_text_def)

subsection \<open>embedContent\<close>

text \<open>
  C8. For every request, \<open>embedContent\<close> returns (it does not fail) an embedding of
  exactly 1536 elements, each of them zero.
\<close>

theorem embedContent_zero_vector:
  "\<exists>r. embedContent request = Inr r \<and> length (embedding r) = 1536 \<and>
       set (embedding r) = {0}"
  by (simp add: embedContent_def)

subsection \<open>Effective model\<close>

text \<open>
  The configuration built by \<open>createContentGeneratorConfig\<close> never has an empty
  model, so neither has a generator created from it.
\<close>

lemma createContentGeneratorConfig_model:
  "cfg_model (createContentGeneratorConfig process cfg a) \<noteq> []"
  by (simp add: createContentGeneratorConfig_def Let_def str_or_def DEFAULT_DEEPSEEK_MODEL_def)

lemma created_generator_model:
  assumes "createContentGenerator createCodeAssist process'
             (createContentGeneratorConfig process cfg a) gcConfig sessionId =
           (Inr (DeepSeek g), effects)"
  shows "ds_model g \<noteq> []"
  using assms createContentGeneratorConfig_model [of process cfg a]
  by (auto simp: createContentGenerator_def Let_def split: if_splits sum.splits)

text \<open>
  C10. For a request whose \<open>model\<close> is the empty string, the normalized request
  carries the generator's configured model, as for a request with no \<open>model\<close>;
  \<open>generateContent\<close> and \<open>generateContentStream\<close> call the transport with that
  model (and do not call it when the normalizer fails); and when the configured model
  is not empty, the model sent is not empty.
\<close>

theorem empty_model_uses_default:
  assumes "model request = Some []"
  shows "(\<forall>r. convertGeminiToOpenAI stringify this request = Inr r \<longrightarrow>
             o_model r = ds_model this) \<and>
    convertGeminiToOpenAI stringify this request =
      convertGeminiToOpenAI stringify this (request\<lparr> model := None \<rparr>) \<and>
    generateContent stringify transport this request =
      (case convertGeminiToOpenAI stringify this request of
         Inl e \<Rightarrow> Inl e
       | Inr openaiRequest \<Rightarrow>
           (case create transport
                   (openaiRequest\<lparr> o_model := ds_model this, stream := Some False \<rparr>) of
              Inl e \<Rightarrow> Inl e
            | Inr response \<Rightarrow> Inr (convertOpenAIToGemini response))) \<and>
    generateContentStream stringify transport this request =
      (case convertGeminiToOpenAI stringify this request of
         Inl e \<Rightarrow> Inl e
       | Inr openaiRequest \<Rightarrow>
           (case create_stream transport
                   (openaiRequest\<lparr> o_model := ds_model this, stream := Some True \<rparr>) of
              Inl e \<Rightarrow> Inl e
            | Inr chunks \<Rightarrow> Inr (convertStreamToGenerator chunks))) \<and>
    (ds_model this \<noteq> [] \<longrightarrow>
       (\<forall>r. convertGeminiToOpenAI stringify this request = Inr r \<longrightarrow> o_model r \<noteq> []))"
proof -
  have cm: "convert_messages stringify (request\<lparr> model := None \<rparr>) =
      convert_messages stringify request"
    by (simp add: convert_messages_def split: option.splits)
  have m: "\<And>r. convertGeminiToOpenAI stringify this request = Inr r \<Longrightarrow>
      o_model r = ds_model this"
    using assms by (auto simp: convertGeminiToOpenAI_def str_or_def split: sum.splits)
  have e: "convertGeminiToOpenAI stringify this request =
      convertGeminiToOpenAI stringify this (request\<lparr> model := None \<rparr>)"
    using assms by (simp add: convertGeminiToOpenAI_def cm str_or_def split: sum.splits)
  have g: "generateContent stringify transport this request =
      (case convertGeminiToOpenAI stringify this request of
         Inl e \<Rightarrow> Inl e
       | Inr openaiRequest \<Rightarrow>
           (case create transport
                   (openaiRequest\<lparr> o_model := ds_model this, stream := Some False \<rparr>) of
              Inl e \<Rightarrow> Inl e
            | Inr response \<Rightarrow> Inr (convertOpenAIToGemini response)))"
  proof (cases "convertGeminiToOpenAI stringify this request")
    case (Inl e)
    then show ?thesis by (simp add: generateContent_def)
  next
    case (Inr p)
    from m [OF Inr] have "p\<lparr> o_model := ds_model this \<rparr> = p" by simp
    with Inr show ?thesis by (simp add: generateContent_def)
  qed
  have s: "generateContentStream stringify transport this request =
      (case convertGeminiToOpenAI stringify this request of
         Inl e \<Rightarrow> Inl e
       | Inr openaiRequest \<Rightarrow>
           (case create_stream transport
                   (openaiRequest\<lparr> o_model := ds_model this, stream := Some True \<rparr>) of
              Inl e \<Rightarrow> Inl e
            | Inr chunks \<Rightarrow> Inr (convertStreamToGenerator chunks)))"
  proof (cases "convertGeminiToOpenAI stringify this request")
    case (Inl e)
    then show ?thesis by (simp add: generateContentStream_def)
  next
    case (Inr p)
    from m [OF Inr] have "p\<lparr> o_model := ds_model this \<rparr> = p" by simp
    with Inr show ?thesis by (simp add: generateContentStream_def)
  qed
  from m e g s show ?thesis by simp
qed

theorem empty_model_uses_default_witness:
  "(let this = \<lparr> openai = \<lparr> oa_apiKey = ''k'', oa_baseURL = None, oa_userAgent = ''ua'' \<rparr>,
                 config = (), ds_model = ''deepseek-chat'' \<rparr>;
        request = \<lparr> contents = Some [JsString ''hi'', JsOther Null], model = Some [],
                    messages = None, max_tokens = Some 50, temperature = None \<rparr>;
        transport = \<lparr> create = (\<lambda>p. Inl (Error (o_model p))),
                      create_stream = (\<lambda>p. Inl (Error (o_model p))) \<rparr>
    in map_sum id o_model (convertGeminiToOpenAI JSON_stringify this request) =
         Inr ''deepseek-chat'' \<and>
       generateContent JSON_stringify transport this request =
         Inl (Error ''deepseek-chat'') \<and>
       generateContentStream JSON_stringify transport this request =
         Inl (Error ''deepseek-chat''))"
  (is "Let ?gen (\<lambda>_. Let ?request (\<lambda>_. Let ?transport _))")
proof -
  have m: "model ?request = Some []" by simp
  note t = empty_model_uses_default [OF m, of JSON_stringify ?gen ?transport]
  have ok: "\<exists>r. convertGeminiToOpenAI JSON_stringify ?gen ?request = Inr r"
    by (simp add: convertGeminiToOpenAI_def convert_messages_def content_string_def)
  then obtain r where r: "convertGeminiToOpenAI JSON_stringify ?gen ?request = Inr r" ..
  with t [THEN conjunct1] have mr: "o_model r = ''deepseek-chat''" by simp
  have "map_sum id o_model (convertGeminiToOpenAI JSON_stringify ?gen ?request) =
         Inr ''deepseek-chat''"
    using r mr by simp
  moreover have "generateContent JSON_stringify ?transport ?gen ?request =
         Inl (Error ''deepseek-chat'')"
    using t [THEN conjunct2, THEN conjunct2, THEN conjunct1] r by simp
  moreover have "generateContentStream JSON_stringify ?transport ?gen ?request =
         Inl (Error ''deepseek-chat'')"
    using t [THEN conjunct2, THEN conjunct2, THEN conjunct2, THEN conjunct1] r by simp
  ultimately show ?thesis by (simp add: Let_def)
qed

end
